theory Spec2Isabelle
  imports Main
begin

section \<open>Dense tensors\<close>

text \<open>
  A dense tensor is its size (one extent per dimension) and its elements in row-major
  order, as \<^verbatim>\<open>torch.Tensor\<close> holds them for a contiguous tensor. The element type is
  any commutative ring: the arithmetic of the elements is exact, where the program
  computes in floating point.
\<close>

datatype error = RuntimeError | IndexError | ShapeError

datatype 'a tensor = Tensor (shape: "nat list") (data: "'a list")

definition wf :: "'a tensor \<Rightarrow> bool" where
  "wf t = (length (data t) = prod_list (shape t))"

definition ndimension :: "'a tensor \<Rightarrow> nat" where
  "ndimension t = length (shape t)"

text \<open>All multi-indices of a size, in row-major order (the last index runs fastest).\<close>

fun indices :: "nat list \<Rightarrow> nat list list" where
  "indices [] = [[]]"
| "indices (n # ns) = concat (map (\<lambda>i. map ((#) i) (indices ns)) [0..<n])"

text \<open>The position of a multi-index in the row-major element list.\<close>

fun flat_index :: "nat list \<Rightarrow> nat list \<Rightarrow> nat" where
  "flat_index (n # ns) (i # js) = i * prod_list ns + flat_index ns js"
| "flat_index _ _ = 0"

definition valid :: "nat list \<Rightarrow> nat list \<Rightarrow> bool" where
  "valid shp idx = list_all2 (<) idx shp"

definition at :: "'a tensor \<Rightarrow> nat list \<Rightarrow> 'a" where
  "at t idx = data t ! flat_index (shape t) idx"

definition tabulate :: "nat list \<Rightarrow> (nat list \<Rightarrow> 'a) \<Rightarrow> 'a tensor" where
  "tabulate shp f = Tensor shp (map f (indices shp))"


subsection \<open>Exceptions\<close>

text \<open>
  A Python call either returns a value or raises; \<open>then_res r f\<close> runs \<open>f\<close> on the
  value of \<open>r\<close> and passes an exception of \<open>r\<close> on.
\<close>

definition then_res :: "error + 'a \<Rightarrow> ('a \<Rightarrow> error + 'b) \<Rightarrow> error + 'b" where
  "then_res r f = (case r of Inl e \<Rightarrow> Inl e | Inr v \<Rightarrow> f v)"

subsection \<open>The tensor operations the kernels call\<close>

text \<open>
  Broadcasting aligns two sizes at their last dimension; two extents are compatible when
  they are equal or one of them is 1, and a missing leading dimension counts as 1.
  Incompatible extents raise \<^verbatim>\<open>RuntimeError\<close>. \<open>broadcast_rev\<close> works on the
  reversed sizes.
\<close>

fun broadcast_rev :: "nat list \<Rightarrow> nat list \<Rightarrow> error + nat list" where
  "broadcast_rev [] ys = Inr ys"
| "broadcast_rev (x # xs) [] = Inr (x # xs)"
| "broadcast_rev (x # xs) (y # ys) =
     (if x = y \<or> y = 1 then then_res (broadcast_rev xs ys) (\<lambda>r. Inr (x # r))
      else if x = 1 then then_res (broadcast_rev xs ys) (\<lambda>r. Inr (y # r))
      else Inl RuntimeError)"

definition broadcast_shapes :: "nat list \<Rightarrow> nat list \<Rightarrow> error + nat list" where
  "broadcast_shapes a b = then_res (broadcast_rev (rev a) (rev b)) (\<lambda>r. Inr (rev r))"

text \<open>
  The index an operand of size \<open>shp\<close> is read at, for the index \<open>idx\<close> of the broadcast
  result: the trailing components of \<open>idx\<close>, with 0 in every dimension of extent 1.
\<close>

definition bidx :: "nat list \<Rightarrow> nat list \<Rightarrow> nat list" where
  "bidx shp idx =
     map2 (\<lambda>n i. if n = 1 then 0 else i) shp (drop (length idx - length shp) idx)"

text \<open>\<^verbatim>\<open>a - b\<close> and \<^verbatim>\<open>a + b\<close> on tensors.\<close>

definition torch_sub :: "'a::comm_ring tensor \<Rightarrow> 'a tensor \<Rightarrow> error + 'a tensor" where
  "torch_sub a b =
     then_res (broadcast_shapes (shape a) (shape b)) (\<lambda>s.
       Inr (tabulate s (\<lambda>idx. at a (bidx (shape a) idx) - at b (bidx (shape b) idx))))"

definition torch_add :: "'a::comm_ring tensor \<Rightarrow> 'a tensor \<Rightarrow> error + 'a tensor" where
  "torch_add a b =
     then_res (broadcast_shapes (shape a) (shape b)) (\<lambda>s.
       Inr (tabulate s (\<lambda>idx. at a (bidx (shape a) idx) + at b (bidx (shape b) idx))))"

text \<open>
  A dimension argument \<open>d\<close> of a tensor with \<open>r\<close> dimensions must lie in \<open>[-r, r-1]\<close>
  (for \<open>r = 0\<close>, in \<open>[-1, 0]\<close>); a negative one counts from the end. Anything else raises
  \<^verbatim>\<open>IndexError\<close>.
\<close>

definition norm_dim :: "nat \<Rightarrow> int \<Rightarrow> error + nat" where
  "norm_dim r d =
     (let m = int (max r 1) in
      if - m \<le> d \<and> d < m then Inr (nat (if d < 0 then d + m else d)) else Inl IndexError)"

text \<open>\<^verbatim>\<open>t.size(d)\<close>.\<close>

definition size_dim :: "'a tensor \<Rightarrow> int \<Rightarrow> error + nat" where
  "size_dim t d =
     (if shape t = [] then Inl IndexError
      else then_res (norm_dim (ndimension t) d) (\<lambda>i. Inr (shape t ! i)))"

definition swap :: "nat \<Rightarrow> nat \<Rightarrow> 'b list \<Rightarrow> 'b list" where
  "swap i j xs = xs[i := xs ! j, j := xs ! i]"

text \<open>\<^verbatim>\<open>t.transpose(d0, d1)\<close>: the two dimensions exchanged.\<close>

definition transpose :: "'a tensor \<Rightarrow> int \<Rightarrow> int \<Rightarrow> error + 'a tensor" where
  "transpose t d0 d1 =
     then_res (norm_dim (ndimension t) d0) (\<lambda>i.
     then_res (norm_dim (ndimension t) d1) (\<lambda>j.
       Inr (tabulate (swap i j (shape t)) (\<lambda>idx. at t (swap i j idx)))))"

text \<open>\<^verbatim>\<open>torch.equal(a, b)\<close>: the same size and the same elements.\<close>

definition torch_equal :: "'a tensor \<Rightarrow> 'a tensor \<Rightarrow> bool" where
  "torch_equal a b = (shape a = shape b \<and> data a = data b)"

text \<open>
  \<^verbatim>\<open>t.expand(target)\<close>: the target has at least the dimensions of \<open>t\<close>, and each extent
  of \<open>t\<close>, aligned at the last dimension, is the target's or 1.
\<close>

definition expandable :: "nat list \<Rightarrow> nat list \<Rightarrow> bool" where
  "expandable shp target =
     (length shp \<le> length target \<and>
      list_all (\<lambda>(s, g). s = g \<or> s = 1) (zip (rev shp) (rev target)))"

definition expand :: "'a tensor \<Rightarrow> nat list \<Rightarrow> error + 'a tensor" where
  "expand t target =
     (if expandable (shape t) target
      then Inr (tabulate target (\<lambda>idx. at t (bidx (shape t) idx)))
      else Inl RuntimeError)"

text \<open>
  \<^verbatim>\<open>t.squeeze(0)\<close>: the first dimension removed when its extent is 1, the tensor
  unchanged otherwise.
\<close>

definition squeeze0 :: "'a tensor \<Rightarrow> 'a tensor" where
  "squeeze0 t = (case shape t of
       n # ns \<Rightarrow> if n = 1 then Tensor ns (data t) else t
     | [] \<Rightarrow> t)"

text \<open>
  The matrix product of two matrices, or of two batches of matrices of the same batch
  size: entry \<open>(i, j)\<close> is the sum over \<open>l\<close> of \<open>a[i, l] * b[l, j]\<close>.
\<close>

definition dot :: "nat \<Rightarrow> (nat \<Rightarrow> 'a::comm_ring) \<Rightarrow> 'a" where
  "dot d f = sum_list (map f [0..<d])"

fun matmul_shape :: "nat list \<Rightarrow> nat list \<Rightarrow> error + nat list" where
  "matmul_shape [n, k] [k', m] = (if k = k' then Inr [n, m] else Inl ShapeError)"
| "matmul_shape [b, n, k] [b', k', m] =
     (if b = b' \<and> k = k' then Inr [b, n, m] else Inl ShapeError)"
| "matmul_shape _ _ = Inl ShapeError"

definition matmul :: "'a::comm_ring tensor \<Rightarrow> 'a tensor \<Rightarrow> error + 'a tensor" where
  "matmul a b =
     then_res (matmul_shape (shape a) (shape b)) (\<lambda>s.
       Inr (tabulate s (\<lambda>idx.
         let pre = take (length idx - 2) idx; i = idx ! (length idx - 2); j = last idx
         in dot (last (shape a)) (\<lambda>l. at a (pre @ [i, l]) * at b (pre @ [l, j])))))"

section \<open>Lazy matrices\<close>

text \<open>
  The lazy-matrix classes (\<^verbatim>\<open>gpytorch.lazy\<close>) are used by both kernels and are not
  among the source files. They are modelled from the specification's data model and
  section 4.1: a lazy matrix is a logical matrix of size \<open>(rows, cols)\<close>, possibly with
  one leading batch dimension; it has a size query, an addition with a tensor
  broadcastable to its size, an implicit matrix product and a materialisation.
  The docstring of \<^verbatim>\<open>LinearKernel\<close> says the same of the two forms it builds: they
  "represent matrices of the form \<open>K = X X\<^sup>t\<close> and \<open>K = X Z\<^sup>t\<close>", and a
  matrix-vector product is computed as \<open>K v = X (X\<^sup>t v)\<close>.
\<close>

datatype 'a lazy =
    NonLazyVariable "'a tensor"
  | RootLazyTensor "'a tensor"
  | MatmulLazyTensor "'a tensor" "'a tensor"
  | SumLazyTensor "'a lazy" "'a tensor"
  | KroneckerProductLazyVariable "'a lazy" "'a lazy"

text \<open>
  Modelled from the spec: the size of the root-product form. \<open>RootLazyTensor(R)\<close>
  represents \<open>R R\<^sup>t\<close>, so a root of size \<open>(batch?, n, d)\<close> gives \<open>(batch?, n, n)\<close>.
\<close>

fun root_size :: "nat list \<Rightarrow> error + nat list" where
  "root_size [n, d] = Inr [n, n]"
| "root_size [b, n, d] = Inr [b, n, n]"
| "root_size _ = Inl ShapeError"

text \<open>
  Modelled from the spec: the size of the Kronecker-product form, the joint matrix of
  size \<open>(rows_task * rows_data, cols_task * cols_data)\<close> of a task matrix and a data
  matrix; a batched data matrix keeps its batch dimension.
\<close>

fun kron_shape :: "nat list \<Rightarrow> nat list \<Rightarrow> error + nat list" where
  "kron_shape [p, q] [r, c] = Inr [p * r, q * c]"
| "kron_shape [p, q] [b, r, c] = Inr [b, p * r, q * c]"
| "kron_shape _ _ = Inl ShapeError"

text \<open>
  Modelled from the spec: the mathematical Kronecker product, in which each entry of the
  first matrix scales a full copy of the second.
\<close>

definition kron :: "'a::comm_ring tensor \<Rightarrow> 'a tensor \<Rightarrow> error + 'a tensor" where
  "kron c d =
     then_res (kron_shape (shape c) (shape d)) (\<lambda>s.
       Inr (tabulate s (\<lambda>idx.
         let pre = take (length idx - 2) idx; i = idx ! (length idx - 2); j = last idx;
             r = shape d ! (length (shape d) - 2); m = last (shape d)
         in at c [i div r, j div m] * at d (pre @ [i mod r, j mod m]))))"

text \<open>
  Modelled from the spec: \<^verbatim>\<open>size()\<close> of each variant, the size of the logical
  matrix, computed from the sizes of the factors alone. Factors whose sizes do not fit
  together are a shape-mismatch failure.
\<close>

fun lazy_size :: "'a lazy \<Rightarrow> error + nat list" where
  "lazy_size (NonLazyVariable t) =
     (if ndimension t = 2 \<or> ndimension t = 3 then Inr (shape t) else Inl ShapeError)"
| "lazy_size (RootLazyTensor r) = root_size (shape r)"
| "lazy_size (MatmulLazyTensor a b) = matmul_shape (shape a) (shape b)"
| "lazy_size (SumLazyTensor l t) =
     then_res (lazy_size l) (\<lambda>s.
     then_res (broadcast_shapes s (shape t)) (\<lambda>s'.
       if s' = s then Inr s else Inl ShapeError))"
| "lazy_size (KroneckerProductLazyVariable a b) =
     then_res (lazy_size a) (\<lambda>sa. then_res (lazy_size b) (\<lambda>sb. kron_shape sa sb))"

text \<open>
  Modelled from the spec: materialisation, the dense tensor equal to the logical matrix:
  \<open>R R\<^sup>t\<close> for the root-product form of \<open>R\<close>, \<open>A B\<close> for the matmul-product form
  of \<open>A\<close> and \<open>B\<close>, the sum for an addition, the Kronecker product for the
  Kronecker-product form.
\<close>

fun evaluate :: "'a::comm_ring lazy \<Rightarrow> error + 'a tensor" where
  "evaluate (NonLazyVariable t) =
     (if ndimension t = 2 \<or> ndimension t = 3 then Inr t else Inl ShapeError)"
| "evaluate (RootLazyTensor r) = then_res (transpose r (-1) (-2)) (\<lambda>rt. matmul r rt)"
| "evaluate (MatmulLazyTensor a b) = matmul a b"
| "evaluate (SumLazyTensor l t) =
     then_res (evaluate l) (\<lambda>m.
     then_res (torch_add m t) (\<lambda>s.
       if shape s = shape m then Inr s else Inl ShapeError))"
| "evaluate (KroneckerProductLazyVariable a b) =
     then_res (evaluate a) (\<lambda>ma. then_res (evaluate b) (\<lambda>mb. kron ma mb))"

text \<open>
  Modelled from the spec: the addition operator of a lazy matrix, which accepts a tensor
  broadcastable to the size of the lazy matrix.
\<close>

definition lazy_add :: "'a lazy \<Rightarrow> 'a tensor \<Rightarrow> error + 'a lazy" where
  "lazy_add l t = then_res (lazy_size (SumLazyTensor l t)) (\<lambda>_. Inr (SumLazyTensor l t))"

text \<open>
  Modelled from the spec: the implicit product of a lazy matrix with a dense matrix of
  column vectors, computed through the factors without forming the logical matrix of a
  root-product or matmul-product form: \<open>R (R\<^sup>t v)\<close> and \<open>A (B v)\<close>.
\<close>

fun lazy_matmul :: "'a::comm_ring lazy \<Rightarrow> 'a tensor \<Rightarrow> error + 'a tensor" where
  "lazy_matmul (NonLazyVariable t) v =
     (if ndimension t = 2 \<or> ndimension t = 3 then matmul t v else Inl ShapeError)"
| "lazy_matmul (RootLazyTensor r) v =
     then_res (transpose r (-1) (-2)) (\<lambda>rt. then_res (matmul rt v) (\<lambda>w. matmul r w))"
| "lazy_matmul (MatmulLazyTensor a b) v = then_res (matmul b v) (\<lambda>w. matmul a w)"
| "lazy_matmul (SumLazyTensor l t) v =
     then_res (lazy_size (SumLazyTensor l t)) (\<lambda>s.
     then_res (lazy_matmul l v) (\<lambda>p.
     then_res (expand t s) (\<lambda>t'.
     then_res (matmul t' v) (\<lambda>q. torch_add p q))))"
| "lazy_matmul (KroneckerProductLazyVariable a b) v =
     then_res (evaluate (KroneckerProductLazyVariable a b)) (\<lambda>m. matmul m v)"

section \<open>The linear kernel\<close>

text \<open>
  \<^verbatim>\<open>LinearKernel\<close> holds two parameters: \<open>variance\<close>, created as
  \<^verbatim>\<open>torch.zeros(1)\<close>, and \<open>offset\<close>, created as
  \<^verbatim>\<open>torch.zeros(1, 1, num_dimensions)\<close>. Priors and active dimensions belong to the
  base class and play no part in \<open>forward\<close>.
\<close>

record 'a linear_kernel =
  variance :: "'a tensor"
  offset :: "'a tensor"

definition zeros :: "nat list \<Rightarrow> 'a::comm_ring tensor" where
  "zeros shp = tabulate shp (\<lambda>_. 0)"

definition LinearKernel_init :: "int \<Rightarrow> error + 'a::comm_ring linear_kernel" where
  "LinearKernel_init num_dimensions =
     (if num_dimensions < 0 then Inl RuntimeError
      else Inr \<lparr>variance = zeros [1], offset = zeros [1, 1, nat num_dimensions]\<rparr>)"

text \<open>Lines 69 to 74 of \<^verbatim>\<open>forward\<close>: the choice of the lazy form.\<close>

definition linear_prod ::
  "'a::comm_ring linear_kernel \<Rightarrow> 'a tensor \<Rightarrow> 'a tensor \<Rightarrow> error + 'a lazy" where
  "linear_prod K x1 x2 =
     (if shape x1 = shape x2 \<and> torch_equal x1 x2
      then then_res (torch_sub x1 (offset K)) (\<lambda>c. Inr (RootLazyTensor c))
      else then_res (torch_sub x1 (offset K)) (\<lambda>c1.
           then_res (torch_sub x2 (offset K)) (\<lambda>c2.
           then_res (transpose c2 2 1) (\<lambda>c2t. Inr (MatmulLazyTensor c1 c2t)))))"

text \<open>\<^verbatim>\<open>LinearKernel.forward\<close>.\<close>

definition forward ::
  "'a::comm_ring linear_kernel \<Rightarrow> 'a tensor \<Rightarrow> 'a tensor \<Rightarrow> error + 'a lazy" where
  "forward K x1 x2 =
     then_res (linear_prod K x1 x2) (\<lambda>prod.
     then_res (lazy_size prod) (\<lambda>sz.
     then_res (expand (variance K) sz) (\<lambda>v. lazy_add prod v)))"

text \<open>
  The inputs the theorems are about: a matrix of \<open>n\<close> rows of \<open>d\<close> coordinates, or a
  batch of \<open>b\<close> such matrices; a single matrix counts as a batch of one. \<open>xat\<close> reads
  coordinate \<open>k\<close> of row \<open>i\<close> of batch member \<open>bi\<close>.
\<close>

definition kernel_input :: "nat \<Rightarrow> nat \<Rightarrow> nat \<Rightarrow> 'a tensor \<Rightarrow> bool" where
  "kernel_input b n d x = (shape x = [b, n, d] \<or> (b = 1 \<and> shape x = [n, d]))"

definition xat :: "'a tensor \<Rightarrow> nat \<Rightarrow> nat \<Rightarrow> nat \<Rightarrow> 'a" where
  "xat x bi i k = (if ndimension x = 2 then at x [i, k] else at x [bi, i, k])"

text \<open>The parameters as the constructor shapes them.\<close>

definition kernel_params :: "nat \<Rightarrow> 'a linear_kernel \<Rightarrow> bool" where
  "kernel_params d K = (shape (offset K) = [1, 1, d] \<and> shape (variance K) = [1])"

text \<open>
  The dense matrix of the specification, \<open>(x1 - o)(x2 - o)\<^sup>t + v\<close>, written out entry
  by entry: entry \<open>(i, j)\<close> of batch member \<open>bi\<close> is the sum over the coordinates \<open>k\<close>
  of \<open>(x1[i, k] - o[k]) * (x2[j, k] - o[k])\<close>, plus \<open>v\<close>.
\<close>

definition dense_linear ::
  "nat \<Rightarrow> nat \<Rightarrow> nat \<Rightarrow> nat \<Rightarrow> 'a::comm_ring linear_kernel \<Rightarrow> 'a tensor \<Rightarrow> 'a tensor \<Rightarrow> 'a tensor" where
  "dense_linear b n1 n2 d K x1 x2 =
     tabulate [b, n1, n2] (\<lambda>idx.
       dot d (\<lambda>k. (xat x1 (idx ! 0) (idx ! 1) k - at (offset K) [0, 0, k])
                 * (xat x2 (idx ! 0) (idx ! 2) k - at (offset K) [0, 0, k]))
       + at (variance K) [0])"

section \<open>The multitask kernel\<close>

text \<open>
  \<^verbatim>\<open>MultitaskKernel\<close> holds the task kernel (an \<^verbatim>\<open>IndexKernel\<close>), the data kernel
  and \<open>n_tasks\<close>. Both kernels are black boxes here: \<open>task_covar_module\<close> is the call
  \<^verbatim>\<open>self.task_covar_module(task_indices).evaluate_kernel()\<close> and \<open>data_covar_module\<close>
  is \<^verbatim>\<open>self.data_covar_module.forward\<close>, which returns a dense tensor or a lazy
  matrix.
\<close>

datatype 'a kernel_output = Dense "'a tensor" | Lazy "'a lazy"

record 'a multitask_kernel =
  task_covar_module :: "int list \<Rightarrow> error + 'a lazy"
  data_covar_module :: "'a tensor \<Rightarrow> 'a tensor \<Rightarrow> error + 'a kernel_output"
  n_tasks :: int

text \<open>
  \<^verbatim>\<open>torch.range(0, n - 1).long()\<close>: the integers from 0 to \<open>n - 1\<close>, both included; an
  upper bound below the lower one raises.
\<close>

definition torch_range_long :: "int \<Rightarrow> error + int list" where
  "torch_range_long n = (if n - 1 < 0 then Inl RuntimeError else Inr [0..n - 1])"

text \<open>
  \<^verbatim>\<open>.squeeze(0)\<close> on what the data kernel returned. On a dense tensor it is
  \<open>squeeze0\<close>; on a lazy matrix it is a method of the lazy-matrix classes that neither
  the source files nor the specification describe, the parameter \<open>sq\<close>.
\<close>

definition squeeze_output ::
  "('a lazy \<Rightarrow> error + 'a lazy) \<Rightarrow> 'a kernel_output \<Rightarrow> error + 'a kernel_output" where
  "squeeze_output sq out = (case out of
       Dense t \<Rightarrow> Inr (Dense (squeeze0 t))
     | Lazy l \<Rightarrow> then_res (sq l) (\<lambda>l'. Inr (Lazy l')))"

text \<open>Lines 25 and 26 of \<^verbatim>\<open>forward\<close>: the task covariance \<open>covar_i\<close>.\<close>

definition multitask_covar_i :: "'a multitask_kernel \<Rightarrow> error + 'a lazy" where
  "multitask_covar_i K =
     then_res (torch_range_long (n_tasks K)) (\<lambda>task_indices.
       task_covar_module K task_indices)"

text \<open>
  Lines 27 to 29: the data covariance \<open>covar_x\<close>, squeezed, and wrapped in the dense
  variant when it is not a lazy matrix.
\<close>

definition multitask_covar_x ::
  "('a lazy \<Rightarrow> error + 'a lazy) \<Rightarrow> 'a multitask_kernel \<Rightarrow> 'a tensor \<Rightarrow> 'a tensor \<Rightarrow>
   error + 'a lazy" where
  "multitask_covar_x sq K x1 x2 =
     then_res (data_covar_module K x1 x2) (\<lambda>out.
     then_res (squeeze_output sq out) (\<lambda>covar_x.
       case covar_x of Dense t \<Rightarrow> Inr (NonLazyVariable t) | Lazy l \<Rightarrow> Inr l))"

text \<open>
  \<^verbatim>\<open>MultitaskKernel.forward\<close>. The \<^verbatim>\<open>print\<close> calls are kept for the \<^verbatim>\<open>size()\<close>
  calls in their arguments, which can raise; what they write is left out.
\<close>

definition multitask_forward ::
  "('a lazy \<Rightarrow> error + 'a lazy) \<Rightarrow> 'a multitask_kernel \<Rightarrow> 'a tensor \<Rightarrow> 'a tensor \<Rightarrow>
   error + 'a lazy" where
  "multitask_forward sq K x1 x2 =
     then_res (multitask_covar_i K) (\<lambda>covar_i.
     then_res (multitask_covar_x sq K x1 x2) (\<lambda>covar_x.
     then_res (lazy_size covar_i) (\<lambda>_.
     then_res (lazy_size covar_x) (\<lambda>_.
     then_res (lazy_size (KroneckerProductLazyVariable covar_i covar_x)) (\<lambda>_.
       Inr (KroneckerProductLazyVariable covar_i covar_x))))))"

text \<open>\<^verbatim>\<open>MultitaskKernel.size\<close>.\<close>

definition multitask_size ::
  "'a multitask_kernel \<Rightarrow> 'a tensor \<Rightarrow> 'a tensor \<Rightarrow> error + int list" where
  "multitask_size K x1 x2 =
     (if ndimension x1 = 3
      then then_res (size_dim x1 0) (\<lambda>b.
           then_res (size_dim x1 (-2)) (\<lambda>n1.
           then_res (size_dim x2 (-2)) (\<lambda>n2.
             Inr [int b, n_tasks K * int n1, n_tasks K * int n2])))
      else then_res (size_dim x1 (-2)) (\<lambda>n1.
           then_res (size_dim x2 (-2)) (\<lambda>n2.
             Inr [n_tasks K * int n1, n_tasks K * int n2])))"

text \<open>
  The centered input \<open>x - offset\<close> as a batch of matrices, and the matrix of dot
  products of the centered rows of two inputs; both are written out entry by entry and
  serve to state what the operations of \<open>forward\<close> compute.
\<close>

definition centered :: "nat \<Rightarrow> nat \<Rightarrow> nat \<Rightarrow> 'a::comm_ring linear_kernel \<Rightarrow> 'a tensor \<Rightarrow> 'a tensor" where
  "centered b n d K x =
     tabulate [b, n, d] (\<lambda>idx. xat x (idx ! 0) (idx ! 1) (idx ! 2) - at (offset K) [0, 0, idx ! 2])"

definition gram :: "nat \<Rightarrow> nat \<Rightarrow> nat \<Rightarrow> nat \<Rightarrow> 'a::comm_ring linear_kernel \<Rightarrow> 'a tensor \<Rightarrow> 'a tensor \<Rightarrow> 'a tensor" where
  "gram b n1 n2 d K x1 x2 =
     tabulate [b, n1, n2] (\<lambda>idx.
       dot d (\<lambda>k. (xat x1 (idx ! 0) (idx ! 1) k - at (offset K) [0, 0, k])
                 * (xat x2 (idx ! 0) (idx ! 2) k - at (offset K) [0, 0, k])))"

text \<open>
  An input whose last dimension cannot be broadcast against the offset of a kernel
  constructed with \<open>num_dimensions = d\<close>: it differs from \<open>d\<close>, and neither is 1.
\<close>

definition mismatched :: "nat \<Rightarrow> 'a tensor \<Rightarrow> bool" where
  "mismatched d x = (shape x \<noteq> [] \<and> last (shape x) \<noteq> d \<and> last (shape x) \<noteq> 1 \<and> d \<noteq> 1)"

subsection \<open>Example inputs\<close>

text \<open>Concrete kernels and inputs, over the integers, on which the theorems are run.\<close>

definition example_kernel :: "int linear_kernel" where
  "example_kernel = \<lparr>variance = Tensor [1] [5], offset = Tensor [1, 1, 2] [10, 20]\<rparr>"

definition example_x :: "int tensor" where
  "example_x = Tensor [2, 2] [1, 2, 3, 4]"

definition example_y :: "int tensor" where
  "example_y = Tensor [3, 2] [1, 2, 3, 4, 5, 6]"

definition example_kernel3 :: "int linear_kernel" where
  "example_kernel3 = \<lparr>variance = Tensor [1] [0], offset = Tensor [1, 1, 3] [0, 0, 0]\<rparr>"

definition example_column :: "int tensor" where
  "example_column = Tensor [2, 1] [1, 2]"

definition example_wide :: "int tensor" where
  "example_wide = Tensor [5, 4] [1, 2, 3, 4, 5, 6, 7, 8, 9, 10, 11, 12, 13, 14, 15, 16, 17, 18, 19, 20]"

text \<open>
  A multitask kernel for the examples: its task kernel returns the dense matrix with 2 on
  the diagonal and 1 elsewhere over the task indices, its data kernel the dense matrix of
  dot products \<open>x1 x2\<^sup>t\<close>.
\<close>

definition example_task_kernel :: "int list \<Rightarrow> error + int lazy" where
  "example_task_kernel task_indices =
     Inr (NonLazyVariable (tabulate [length task_indices, length task_indices]
       (\<lambda>idx. if idx ! 0 = idx ! 1 then 2 else 1)))"

definition example_data_kernel :: "int tensor \<Rightarrow> int tensor \<Rightarrow> error + int kernel_output" where
  "example_data_kernel x1 x2 =
     then_res (transpose x2 (-1) (-2)) (\<lambda>x2t.
     then_res (matmul x1 x2t) (\<lambda>m. Inr (Dense m)))"

definition example_multitask :: "int multitask_kernel" where
  "example_multitask = \<lparr>task_covar_module = example_task_kernel,
     data_covar_module = example_data_kernel, n_tasks = 2\<rparr>"

definition example_batch :: "int tensor" where
  "example_batch = Tensor [1, 2, 1] [1, 2]"

definition example_rows :: "int tensor" where
  "example_rows = Tensor [2, 1] [1, 2]"

section \<open>Properties\<close>

subsection \<open>Facts about the row-major layout\<close>

lemma concat_nth_uniform:
  "(\<And>xs. xs \<in> set xss \<Longrightarrow> length xs = m) \<Longrightarrow> i < length xss \<Longrightarrow> j < m \<Longrightarrow>
   concat xss ! (i * m + j) = xss ! i ! j"
proof (induction xss arbitrary: i)
  case Nil
  then show ?case by simp
next
  case (Cons ys yss)
  have len: "length ys = m" using Cons.prems(1) by simp
  show ?case
  proof (cases i)
    case 0
    then show ?thesis using len Cons.prems(3) by (simp add: nth_append)
  next
    case (Suc k)
    have "concat yss ! (k * m + j) = yss ! k ! j"
      using Cons.IH [of k] Cons.prems Suc by simp
    moreover have "(Suc k) * m + j = length ys + (k * m + j)"
      using len by simp
    ultimately show ?thesis using Suc len
      by (simp add: nth_append)
  qed
qed

lemma length_concat_uniform:
  "(\<And>xs. xs \<in> set xss \<Longrightarrow> length xs = m) \<Longrightarrow> length (concat xss) = length xss * m"
  by (induction xss) simp_all

lemma length_indices: "length (indices shp) = prod_list shp"
proof (induction shp)
  case Nil
  then show ?case by simp
next
  case (Cons n ns)
  have "length (concat (map (\<lambda>i. map ((#) i) (indices ns)) [0..<n]))
        = length (map (\<lambda>i. map ((#) i) (indices ns)) [0..<n]) * prod_list ns"
    by (rule length_concat_uniform) (auto simp: Cons.IH)
  then show ?case by simp
qed

lemma flat_index_less: "valid shp idx \<Longrightarrow> flat_index shp idx < prod_list shp"
  unfolding valid_def
proof (induction idx shp rule: list_all2_induct)
  case Nil
  then show ?case by simp
next
  case (Cons i js n ns)
  have "i * prod_list ns + flat_index ns js < i * prod_list ns + prod_list ns"
    using Cons.IH by simp
  also have "\<dots> = Suc i * prod_list ns" by simp
  also have "\<dots> \<le> n * prod_list ns"
    using Cons.hyps(1) by (intro mult_le_mono1) simp
  finally show ?case by simp
qed

lemma indices_nth: "valid shp idx \<Longrightarrow> indices shp ! flat_index shp idx = idx"
  unfolding valid_def
proof (induction idx shp rule: list_all2_induct)
  case Nil
  then show ?case by simp
next
  case (Cons i js n ns)
  let ?xss = "map (\<lambda>i. map ((#) i) (indices ns)) [0..<n]"
  have v: "valid ns js" using Cons.hyps(2) by (simp add: valid_def)
  have j: "flat_index ns js < prod_list ns" by (rule flat_index_less [OF v])
  have "concat ?xss ! (i * prod_list ns + flat_index ns js) = ?xss ! i ! flat_index ns js"
    by (rule concat_nth_uniform) (use Cons.hyps(1) j in \<open>auto simp: length_indices\<close>)
  also have "\<dots> = i # indices ns ! flat_index ns js"
    using Cons.hyps(1) j by (simp add: length_indices)
  finally show ?case using Cons.IH by simp
qed

lemma set_indices: "set (indices shp) = {idx. valid shp idx}"
proof (induction shp)
  case Nil
  then show ?case by (auto simp: valid_def)
next
  case (Cons n ns)
  show ?case
  proof (intro set_eqI iffI)
    fix idx assume "idx \<in> set (indices (n # ns))"
    then show "idx \<in> {idx. valid (n # ns) idx}"
      using Cons.IH by (auto simp: valid_def)
  next
    fix idx assume "idx \<in> {idx. valid (n # ns) idx}"
    then obtain i js where "idx = i # js" "i < n" "valid ns js"
      by (auto simp: valid_def list_all2_Cons2)
    then show "idx \<in> set (indices (n # ns))"
      using Cons.IH by auto
  qed
qed

lemma shape_tabulate: "shape (tabulate shp f) = shp"
  by (simp add: tabulate_def)

lemma wf_tabulate: "wf (tabulate shp f)"
  by (simp add: tabulate_def wf_def length_indices)

lemma at_tabulate: "valid shp idx \<Longrightarrow> at (tabulate shp f) idx = f idx"
  by (simp add: at_def tabulate_def flat_index_less length_indices indices_nth)

lemma tabulate_cong:
  "(\<And>idx. valid shp idx \<Longrightarrow> f idx = g idx) \<Longrightarrow> tabulate shp f = tabulate shp g"
  by (simp add: tabulate_def set_indices)

subsection \<open>What the tensor operations compute on matrices and batches\<close>


lemma then_res_Inl [simp]: "then_res (Inl e) f = Inl e"
  by (simp add: then_res_def)

lemma then_res_Inr [simp]: "then_res (Inr v) f = f v"
  by (simp add: then_res_def)

lemma valid3: "valid [a, b, c] idx \<longleftrightarrow> (\<exists>i j k. idx = [i, j, k] \<and> i < a \<and> j < b \<and> k < c)"
  by (auto simp: valid_def list_all2_Cons2)


lemma tabulate3_cong:
  assumes "\<And>i j k. i < a \<Longrightarrow> j < b \<Longrightarrow> k < c \<Longrightarrow> f [i, j, k] = g [i, j, k]"
  shows "tabulate [a, b, c] f = tabulate [a, b, c] g"
  by (rule tabulate_cong) (use assms in \<open>auto simp: valid3\<close>)

lemma at_tabulate3:
  "i < a \<Longrightarrow> j < b \<Longrightarrow> k < c \<Longrightarrow> at (tabulate [a, b, c] f) [i, j, k] = f [i, j, k]"
  by (rule at_tabulate) (simp add: valid3)

lemma dot_cong: "(\<And>k. k < d \<Longrightarrow> f k = g k) \<Longrightarrow> dot d f = dot d g"
  unfolding dot_def by (rule arg_cong [where f = sum_list]) simp

lemma broadcast_offset3: "broadcast_shapes [b, n, d] [1, 1, d] = Inr [b, n, d]"
  by (simp add: broadcast_shapes_def)

lemma broadcast_offset2: "broadcast_shapes [n, d] [1, 1, d] = Inr [1, n, d]"
  by (simp add: broadcast_shapes_def)

lemma sub_centered:
  assumes "kernel_input b n d x" "kernel_params d K"
  shows "torch_sub x (offset K) = Inr (centered b n d K x)"
proof -
  have o: "shape (offset K) = [1, 1, d]" using assms(2) by (simp add: kernel_params_def)
  consider (three) "shape x = [b, n, d]" | (two) "b = 1" "shape x = [n, d]"
    using assms(1) by (auto simp: kernel_input_def)
  then show ?thesis
  proof cases
    case three
    show ?thesis
      unfolding torch_sub_def centered_def three o broadcast_offset3 then_res_Inr
      by (intro arg_cong [where f = Inr] tabulate3_cong)
         (auto simp: bidx_def xat_def ndimension_def three)
  next
    case two
    show ?thesis
      unfolding torch_sub_def centered_def two o broadcast_offset2 then_res_Inr
      by (intro arg_cong [where f = Inr] tabulate3_cong)
         (auto simp: bidx_def xat_def ndimension_def two)
  qed
qed

lemma shape_centered: "shape (centered b n d K x) = [b, n, d]"
  by (simp add: centered_def shape_tabulate)

lemma transpose3:
  assumes "shape t = [b, n, d]"
  shows "transpose t 2 1 = Inr (tabulate [b, d, n] (\<lambda>idx. at t [idx ! 0, idx ! 2, idx ! 1]))"
  unfolding transpose_def ndimension_def assms
  by (simp add: norm_dim_def swap_def)
     (intro tabulate3_cong, simp)

lemma transpose3_neg:
  assumes "shape t = [b, n, d]"
  shows "transpose t (-1) (-2) = Inr (tabulate [b, d, n] (\<lambda>idx. at t [idx ! 0, idx ! 2, idx ! 1]))"
  unfolding transpose_def ndimension_def assms
  by (simp add: norm_dim_def swap_def)
     (intro tabulate3_cong, simp)

lemma matmul3:
  assumes "shape A = [b, n, k]" "shape B = [b, k, m]"
  shows "matmul A B = Inr (tabulate [b, n, m]
           (\<lambda>idx. dot k (\<lambda>l. at A [idx ! 0, idx ! 1, l] * at B [idx ! 0, l, idx ! 2])))"
  unfolding matmul_def assms
  by (simp, intro tabulate3_cong, simp)

lemma expand_variance:
  assumes "shape v = [1]"
  shows "expand v [b, n, m] = Inr (tabulate [b, n, m] (\<lambda>_. at v [0]))"
  unfolding expand_def assms
  by (simp add: expandable_def, intro tabulate3_cong, simp add: bidx_def)

lemma broadcast_same3: "broadcast_shapes [b, n, m] [b, n, m] = Inr [b, n, m]"
  by (simp add: broadcast_shapes_def)

lemma add3:
  assumes "shape A = [b, n, m]" "shape B = [b, n, m]"
  shows "torch_add A B = Inr (tabulate [b, n, m] (\<lambda>idx. at A idx + at B idx))"
  unfolding torch_add_def assms broadcast_same3 then_res_Inr
  by (intro arg_cong [where f = Inr] tabulate3_cong) (auto simp: bidx_def)


lemma at_centered:
  "bi < b \<Longrightarrow> i < n \<Longrightarrow> k < d \<Longrightarrow>
   at (centered b n d K x) [bi, i, k] = xat x bi i k - at (offset K) [0, 0, k]"
  by (simp add: centered_def at_tabulate3)

lemma shape_gram: "shape (gram b n1 n2 d K x1 x2) = [b, n1, n2]"
  by (simp add: gram_def shape_tabulate)

lemma kernel_input_same:
  assumes "kernel_input b n1 d x1" "kernel_input b n2 d x2" "shape x1 = shape x2"
  shows "n1 = n2"
  using assms by (auto simp: kernel_input_def)

lemma torch_equal_iff: "shape x1 = shape x2 \<and> torch_equal x1 x2 \<longleftrightarrow> x1 = x2"
  by (auto simp: torch_equal_def tensor.expand)

lemma root_evaluate:
  "evaluate (RootLazyTensor (centered b n d K x)) = Inr (gram b n n d K x x)"
proof -
  let ?c = "centered b n d K x"
  let ?ct = "tabulate [b, d, n] (\<lambda>idx. at ?c [idx ! 0, idx ! 2, idx ! 1])"
  have t: "transpose ?c (-1) (-2) = Inr ?ct"
    by (rule transpose3_neg) (rule shape_centered)
  have m: "matmul ?c ?ct = Inr (tabulate [b, n, n]
      (\<lambda>idx. dot d (\<lambda>l. at ?c [idx ! 0, idx ! 1, l] * at ?ct [idx ! 0, l, idx ! 2])))"
    by (rule matmul3) (simp_all add: shape_centered shape_tabulate)
  have "tabulate [b, n, n]
      (\<lambda>idx. dot d (\<lambda>l. at ?c [idx ! 0, idx ! 1, l] * at ?ct [idx ! 0, l, idx ! 2]))
      = gram b n n d K x x"
    unfolding gram_def
    by (intro tabulate3_cong dot_cong) (simp add: at_tabulate3 at_centered)
  then show ?thesis using t m by simp
qed

lemma matmul_evaluate:
  "evaluate (MatmulLazyTensor (centered b n1 d K x1)
       (tabulate [b, d, n2] (\<lambda>idx. at (centered b n2 d K x2) [idx ! 0, idx ! 2, idx ! 1])))
   = Inr (gram b n1 n2 d K x1 x2)"
proof -
  let ?c1 = "centered b n1 d K x1"
  let ?c2 = "centered b n2 d K x2"
  let ?ct = "tabulate [b, d, n2] (\<lambda>idx. at ?c2 [idx ! 0, idx ! 2, idx ! 1])"
  have m: "matmul ?c1 ?ct = Inr (tabulate [b, n1, n2]
      (\<lambda>idx. dot d (\<lambda>l. at ?c1 [idx ! 0, idx ! 1, l] * at ?ct [idx ! 0, l, idx ! 2])))"
    by (rule matmul3) (simp_all add: shape_centered shape_tabulate)
  have "tabulate [b, n1, n2]
      (\<lambda>idx. dot d (\<lambda>l. at ?c1 [idx ! 0, idx ! 1, l] * at ?ct [idx ! 0, l, idx ! 2]))
      = gram b n1 n2 d K x1 x2"
    unfolding gram_def
    by (intro tabulate3_cong dot_cong) (simp add: at_tabulate3 at_centered)
  then show ?thesis using m by simp
qed

lemma linear_prod_result:
  assumes "kernel_input b n1 d x1" "kernel_input b n2 d x2" "kernel_params d K"
  shows "linear_prod K x1 x2 =
     Inr (if x1 = x2 then RootLazyTensor (centered b n1 d K x1)
          else MatmulLazyTensor (centered b n1 d K x1)
                 (tabulate [b, d, n2] (\<lambda>idx. at (centered b n2 d K x2) [idx ! 0, idx ! 2, idx ! 1])))"
proof -
  have s1: "torch_sub x1 (offset K) = Inr (centered b n1 d K x1)"
    by (rule sub_centered) fact+
  have s2: "torch_sub x2 (offset K) = Inr (centered b n2 d K x2)"
    by (rule sub_centered) fact+
  have t: "transpose (centered b n2 d K x2) 2 1 =
      Inr (tabulate [b, d, n2] (\<lambda>idx. at (centered b n2 d K x2) [idx ! 0, idx ! 2, idx ! 1]))"
    by (rule transpose3) (rule shape_centered)
  show ?thesis
    unfolding linear_prod_def torch_equal_iff s1 s2 by (simp add: t)
qed

lemma linear_prod_size:
  assumes "kernel_input b n1 d x1" "kernel_input b n2 d x2" "kernel_params d K"
    and "linear_prod K x1 x2 = Inr pr"
  shows "lazy_size pr = Inr [b, n1, n2]"
proof (cases "x1 = x2")
  case True
  then have "n1 = n2" using kernel_input_same [OF assms(1,2)] by simp
  then show ?thesis
    using assms(4) True linear_prod_result [OF assms(1-3)]
    by (auto simp: shape_centered)
next
  case False
  then show ?thesis
    using assms(4) linear_prod_result [OF assms(1-3)]
    by (auto simp: shape_centered shape_tabulate)
qed

lemma linear_prod_evaluate:
  assumes "kernel_input b n1 d x1" "kernel_input b n2 d x2" "kernel_params d K"
    and "linear_prod K x1 x2 = Inr pr"
  shows "evaluate pr = Inr (gram b n1 n2 d K x1 x2)"
proof (cases "x1 = x2")
  case True
  then have "n1 = n2" using kernel_input_same [OF assms(1,2)] by simp
  moreover have "pr = RootLazyTensor (centered b n1 d K x1)"
    using assms(4) True linear_prod_result [OF assms(1-3)] by simp
  ultimately show ?thesis
    using True by (simp only: root_evaluate)
next
  case False
  then have "pr = MatmulLazyTensor (centered b n1 d K x1)
      (tabulate [b, d, n2] (\<lambda>idx. at (centered b n2 d K x2) [idx ! 0, idx ! 2, idx ! 1]))"
    using assms(4) linear_prod_result [OF assms(1-3)] by simp
  then show ?thesis
    by (simp only: matmul_evaluate)
qed

lemma forward_result:
  assumes "kernel_input b n1 d x1" "kernel_input b n2 d x2" "kernel_params d K"
  shows "\<exists>pr. linear_prod K x1 x2 = Inr pr \<and>
     forward K x1 x2 =
       Inr (SumLazyTensor pr (tabulate [b, n1, n2] (\<lambda>_. at (variance K) [0])))"
proof -
  obtain pr where p: "linear_prod K x1 x2 = Inr pr"
    using linear_prod_result [OF assms] by blast
  have sz: "lazy_size pr = Inr [b, n1, n2]"
    by (rule linear_prod_size [OF assms p])
  have v: "shape (variance K) = [1]" using assms(3) by (simp add: kernel_params_def)
  have "forward K x1 x2 =
       Inr (SumLazyTensor pr (tabulate [b, n1, n2] (\<lambda>_. at (variance K) [0])))"
    unfolding forward_def p
    by (simp add: sz expand_variance [OF v] lazy_add_def shape_tabulate broadcast_same3)
  then show ?thesis using p by blast
qed

lemma gram_plus_variance:
  "torch_add (gram b n1 n2 d K x1 x2) (tabulate [b, n1, n2] (\<lambda>_. at (variance K) [0]))
   = Inr (dense_linear b n1 n2 d K x1 x2)"
proof -
  have "torch_add (gram b n1 n2 d K x1 x2) (tabulate [b, n1, n2] (\<lambda>_. at (variance K) [0]))
    = Inr (tabulate [b, n1, n2] (\<lambda>idx. at (gram b n1 n2 d K x1 x2) idx
         + at (tabulate [b, n1, n2] (\<lambda>_. at (variance K) [0])) idx))"
    by (rule add3) (simp_all add: shape_gram shape_tabulate)
  also have "\<dots> = Inr (dense_linear b n1 n2 d K x1 x2)"
    unfolding dense_linear_def
    by (intro arg_cong [where f = Inr] tabulate3_cong)
       (simp add: at_tabulate3 gram_def)
  finally show ?thesis .
qed

lemma shape_dense_linear: "shape (dense_linear b n1 n2 d K x1 x2) = [b, n1, n2]"
  by (simp add: dense_linear_def shape_tabulate)

lemma forward_evaluate:
  assumes "kernel_input b n1 d x1" "kernel_input b n2 d x2" "kernel_params d K"
    and "forward K x1 x2 = Inr res"
  shows "evaluate res = Inr (dense_linear b n1 n2 d K x1 x2)"
proof -
  obtain pr where p: "linear_prod K x1 x2 = Inr pr"
    and f: "forward K x1 x2 =
       Inr (SumLazyTensor pr (tabulate [b, n1, n2] (\<lambda>_. at (variance K) [0])))"
    using forward_result [OF assms(1-3)] by blast
  have e: "evaluate pr = Inr (gram b n1 n2 d K x1 x2)"
    by (rule linear_prod_evaluate [OF assms(1-3) p])
  have "res = SumLazyTensor pr (tabulate [b, n1, n2] (\<lambda>_. at (variance K) [0]))"
    using f assms(4) by simp
  then show ?thesis
    by (simp add: e gram_plus_variance shape_dense_linear shape_gram)
qed

subsection \<open>The linear kernel\<close>


lemma then_res_eq_Inr: "then_res r f = Inr y \<longleftrightarrow> (\<exists>v. r = Inr v \<and> f v = Inr y)"
  by (cases r) simp_all

lemma lazy_add_Inr: "lazy_add l t = Inr res \<Longrightarrow> res = SumLazyTensor l t"
  by (auto simp: lazy_add_def then_res_eq_Inr)

text \<open>
  Claim C1. For inputs \<open>x1\<close> of \<open>n1\<close> rows and \<open>x2\<close> of \<open>n2\<close> rows of \<open>d\<close>
  coordinates (matrices, or batches of the same batch size \<open>b\<close>), an offset of size
  \<open>(1, 1, d)\<close> and a variance of size \<open>(1)\<close>, \<open>forward\<close> returns a lazy matrix, and
  materialising it gives exactly the dense matrix \<open>(x1 - o)(x2 - o)\<^sup>t + v\<close>: entry
  \<open>(i, j)\<close> is the sum over \<open>k\<close> of \<open>(x1[i, k] - o[k]) * (x2[j, k] - o[k])\<close>, plus
  \<open>v\<close>. This holds on both branches. For matrices the result is a batch of one.
\<close>
theorem linear_forward_dense:
  assumes "kernel_input b n1 d x1" "kernel_input b n2 d x2" "kernel_params d K"
  shows "\<exists>res. forward K x1 x2 = Inr res \<and>
               evaluate res = Inr (dense_linear b n1 n2 d K x1 x2)"
proof -
  obtain res where r: "forward K x1 x2 = Inr res"
    using forward_result [OF assms] by blast
  then show ?thesis
    using forward_evaluate [OF assms r] by blast
qed

theorem linear_forward_dense_witness:
  "then_res (forward example_kernel example_x example_y) evaluate
   = Inr (Tensor [1, 2, 3] [410, 356, 302, 356, 310, 264])"
proof -
  have h1: "kernel_input 1 2 2 example_x"
    by (simp add: kernel_input_def example_x_def)
  have h2: "kernel_input 1 3 2 example_y"
    by (simp add: kernel_input_def example_y_def)
  have h3: "kernel_params 2 example_kernel"
    by (simp add: kernel_params_def example_kernel_def)
  have "dense_linear 1 2 3 2 example_kernel example_x example_y
        = Tensor [1, 2, 3] [410, 356, 302, 356, 310, 264]"
    by code_simp
  then show ?thesis
    using linear_forward_dense [OF h1 h2 h3] by auto
qed

text \<open>
  Claim C2. Whenever \<open>forward\<close> returns, the lazy matrix it returns is the sum of a
  product form and the expanded variance, and the product form is the root-product form
  if and only if \<open>x1\<close> and \<open>x2\<close> have the same size and are elementwise equal. In
  that case it is the root-product form of the single centered tensor \<open>x1 - offset\<close>;
  in every other case it is the matmul-product form of \<open>x1 - offset\<close> and
  \<open>(x2 - offset).transpose(2, 1)\<close>, the two inputs centered independently.
\<close>
theorem linear_forward_branch:
  assumes "forward K x1 x2 = Inr res"
  shows "((\<exists>c v. res = SumLazyTensor (RootLazyTensor c) v)
            \<longleftrightarrow> (shape x1 = shape x2 \<and> torch_equal x1 x2))
       \<and> (shape x1 = shape x2 \<and> torch_equal x1 x2 \<longrightarrow>
            (\<exists>c v. torch_sub x1 (offset K) = Inr c \<and> res = SumLazyTensor (RootLazyTensor c) v))
       \<and> (\<not> (shape x1 = shape x2 \<and> torch_equal x1 x2) \<longrightarrow>
            (\<exists>c1 c2 c2t v. torch_sub x1 (offset K) = Inr c1 \<and> torch_sub x2 (offset K) = Inr c2
               \<and> transpose c2 2 1 = Inr c2t \<and> res = SumLazyTensor (MatmulLazyTensor c1 c2t) v))"
proof -
  obtain pr v where p: "linear_prod K x1 x2 = Inr pr" and r: "res = SumLazyTensor pr v"
    using assms by (auto simp: forward_def then_res_eq_Inr dest: lazy_add_Inr)
  show ?thesis
  proof (cases "shape x1 = shape x2 \<and> torch_equal x1 x2")
    case True
    then obtain c where "torch_sub x1 (offset K) = Inr c" "pr = RootLazyTensor c"
      using p by (auto simp: linear_prod_def then_res_eq_Inr)
    then show ?thesis using True r by auto
  next
    case False
    then obtain c1 c2 c2t where "torch_sub x1 (offset K) = Inr c1"
        "torch_sub x2 (offset K) = Inr c2" "transpose c2 2 1 = Inr c2t"
        "pr = MatmulLazyTensor c1 c2t"
      using p by (auto simp: linear_prod_def then_res_eq_Inr)
    then show ?thesis using False r by auto
  qed
qed


theorem linear_forward_branch_witness:
  "(\<exists>c v. torch_sub example_x (offset example_kernel) = Inr c \<and>
      SumLazyTensor (RootLazyTensor (Tensor [1, 2, 2] [- 9, - 18, - 7, - 16]))
        (Tensor [1, 2, 2] [5, 5, 5, 5]) = SumLazyTensor (RootLazyTensor c) v)
   \<and> (\<exists>c1 c2 c2t v. torch_sub example_x (offset example_kernel) = Inr c1
        \<and> torch_sub example_y (offset example_kernel) = Inr c2
        \<and> transpose c2 2 1 = Inr c2t
        \<and> SumLazyTensor
             (MatmulLazyTensor (Tensor [1, 2, 2] [- 9, - 18, - 7, - 16])
                (Tensor [1, 2, 3] [- 9, - 7, - 5, - 18, - 16, - 14]))
             (Tensor [1, 2, 3] [5, 5, 5, 5, 5, 5]) = SumLazyTensor (MatmulLazyTensor c1 c2t) v)"
proof -
  have same: "forward example_kernel example_x example_x =
      Inr (SumLazyTensor (RootLazyTensor (Tensor [1, 2, 2] [- 9, - 18, - 7, - 16]))
        (Tensor [1, 2, 2] [5, 5, 5, 5]))"
    by code_simp
  have other: "forward example_kernel example_x example_y =
      Inr (SumLazyTensor
             (MatmulLazyTensor (Tensor [1, 2, 2] [- 9, - 18, - 7, - 16])
                (Tensor [1, 2, 3] [- 9, - 7, - 5, - 18, - 16, - 14]))
             (Tensor [1, 2, 3] [5, 5, 5, 5, 5, 5]))"
    by code_simp
  have eq: "shape example_x = shape example_x \<and> torch_equal example_x example_x"
    by (simp add: torch_equal_def)
  have ne: "\<not> (shape example_x = shape example_y \<and> torch_equal example_x example_y)"
    by (simp add: example_x_def example_y_def)
  show ?thesis
    using linear_forward_branch [OF same] linear_forward_branch [OF other] eq ne
    by blast
qed

text \<open>
  Claim C5. For an input \<open>X\<close> whose centered tensor \<open>c = X - offset\<close> is a batch of
  matrices, the root-product form of \<open>c\<close> and the matmul-product form of the pair
  \<open>c\<close>, \<open>c.transpose(2, 1)\<close> (as the second branch of \<open>forward\<close> builds it) both
  materialise, and to the same dense matrix.
\<close>
theorem root_matmul_same_matrix:
  assumes "torch_sub x (offset K) = Inr c" "shape c = [b, n, d]"
  shows "\<exists>ct m. transpose c 2 1 = Inr ct \<and> evaluate (RootLazyTensor c) = Inr m \<and>
                evaluate (MatmulLazyTensor c ct) = Inr m"
proof -
  let ?ct = "tabulate [b, d, n] (\<lambda>idx. at c [idx ! 0, idx ! 2, idx ! 1])"
  have t: "transpose c 2 1 = Inr ?ct" by (rule transpose3) fact
  have t': "transpose c (-1) (-2) = Inr ?ct" by (rule transpose3_neg) fact
  obtain m where m: "matmul c ?ct = Inr m"
    using matmul3 [of c b n d ?ct n] assms(2) by (simp add: shape_tabulate)
  show ?thesis using t t' m by simp
qed

theorem root_matmul_same_matrix_witness:
  "evaluate (RootLazyTensor (Tensor [1, 2, 2] [- 9, - 18, - 7, - 16 :: int]))
     = Inr (Tensor [1, 2, 2] [405, 351, 351, 305])
   \<and> evaluate (MatmulLazyTensor (Tensor [1, 2, 2] [- 9, - 18, - 7, - 16 :: int])
        (Tensor [1, 2, 2] [- 9, - 7, - 18, - 16]))
     = Inr (Tensor [1, 2, 2] [405, 351, 351, 305])"
proof -
  have s: "torch_sub example_x (offset example_kernel)
           = Inr (Tensor [1, 2, 2] [- 9, - 18, - 7, - 16])"
    by code_simp
  have t: "transpose (Tensor [1, 2, 2] [- 9, - 18, - 7, - 16 :: int]) 2 1
           = Inr (Tensor [1, 2, 2] [- 9, - 7, - 18, - 16])"
    by code_simp
  have r: "evaluate (RootLazyTensor (Tensor [1, 2, 2] [- 9, - 18, - 7, - 16 :: int]))
     = Inr (Tensor [1, 2, 2] [405, 351, 351, 305])"
    by code_simp
  show ?thesis
    using root_matmul_same_matrix [OF s, of 1 2 2] t r by auto
qed

lemma dense_linear_symmetric:
  "transpose (dense_linear b n n d K x x) (-1) (-2) = Inr (dense_linear b n n d K x x)"
proof -
  have "transpose (dense_linear b n n d K x x) (-1) (-2)
      = Inr (tabulate [b, n, n]
          (\<lambda>idx. at (dense_linear b n n d K x x) [idx ! 0, idx ! 2, idx ! 1]))"
    by (rule transpose3_neg) (rule shape_dense_linear)
  also have "tabulate [b, n, n]
          (\<lambda>idx. at (dense_linear b n n d K x x) [idx ! 0, idx ! 2, idx ! 1])
      = dense_linear b n n d K x x"
    unfolding dense_linear_def
    by (subst (2) tabulate3_cong [where g = "\<lambda>idx.
           dot d (\<lambda>k. (xat x (idx ! 0) (idx ! 2) k - at (offset K) [0, 0, k])
                     * (xat x (idx ! 0) (idx ! 1) k - at (offset K) [0, 0, k]))
           + at (variance K) [0]"])
       (auto simp: at_tabulate3 mult.commute intro!: tabulate3_cong)
  finally show ?thesis .
qed

text \<open>
  Claim C6. When \<open>x1\<close> and \<open>x2\<close> have the same size and are elementwise equal, the
  lazy matrix \<open>forward\<close> returns materialises to a matrix equal to its own transpose.
\<close>
theorem linear_forward_symmetric:
  assumes "kernel_input b n d x1" "shape x1 = shape x2" "torch_equal x1 x2"
    and "kernel_params d K"
  shows "\<exists>res m. forward K x1 x2 = Inr res \<and> evaluate res = Inr m \<and>
                 transpose m (-1) (-2) = Inr m"
proof -
  have eq: "x2 = x1" using assms(2,3) torch_equal_iff [of x1 x2] by simp
  obtain res where r: "forward K x1 x1 = Inr res"
    using forward_result [OF assms(1) assms(1) assms(4)] by blast
  have "evaluate res = Inr (dense_linear b n n d K x1 x1)"
    by (rule forward_evaluate [OF assms(1) assms(1) assms(4) r])
  then show ?thesis
    using r eq dense_linear_symmetric by blast
qed

theorem linear_forward_symmetric_witness:
  "then_res (then_res (forward example_kernel example_x example_x) evaluate)
      (\<lambda>m. transpose m (-1) (-2))
   = Inr (Tensor [1, 2, 2] [410, 356, 356, 310])"
proof -
  have h1: "kernel_input 1 2 2 example_x"
    by (simp add: kernel_input_def example_x_def)
  have h2: "torch_equal example_x example_x"
    by (simp add: torch_equal_def)
  have h3: "kernel_params 2 example_kernel"
    by (simp add: kernel_params_def example_kernel_def)
  have e: "then_res (forward example_kernel example_x example_x) evaluate
      = Inr (Tensor [1, 2, 2] [410, 356, 356, 310])"
    by code_simp
  show ?thesis
    using linear_forward_symmetric [OF h1 refl h2 h3] e by auto
qed


lemma dot_sum: "dot d f = (\<Sum>k<d. f k)"
  unfolding dot_def by (simp add: interv_sum_list_conv_sum_set_nat atLeast0LessThan)

lemma dot_assoc:
  "dot d (\<lambda>k. a k * dot n (\<lambda>l. B l k * v l)) = dot n (\<lambda>l. dot d (\<lambda>k. a k * B l k) * v l)"
proof -
  have "(\<Sum>k<d. a k * (\<Sum>l<n. B l k * v l)) = (\<Sum>k<d. \<Sum>l<n. a k * B l k * v l)"
    by (simp add: sum_distrib_left mult.assoc)
  also have "\<dots> = (\<Sum>l<n. \<Sum>k<d. a k * B l k * v l)"
    by (rule sum.swap)
  also have "\<dots> = (\<Sum>l<n. (\<Sum>k<d. a k * B l k) * v l)"
    by (simp add: sum_distrib_right)
  finally show ?thesis by (simp add: dot_sum)
qed

lemma dot_plus_const:
  "dot n (\<lambda>l. (g l + c) * v l) = dot n (\<lambda>l. g l * v l) + dot n (\<lambda>l. c * v l)"
  by (simp add: dot_sum distrib_right sum.distrib)

lemma expand_same3:
  assumes "shape t = [b, n, m]"
  shows "expand t [b, n, m] = Inr (tabulate [b, n, m] (\<lambda>idx. at t idx))"
  unfolding expand_def assms
  by (simp add: expandable_def, intro tabulate3_cong, auto simp: bidx_def)

lemma linear_prod_matmul:
  assumes "kernel_input b n1 d x1" "kernel_input b n2 d x2" "kernel_params d K"
    and "linear_prod K x1 x2 = Inr pr" and "shape v = [b, n2, c]"
  shows "lazy_matmul pr v = Inr (tabulate [b, n1, c] (\<lambda>idx.
      dot d (\<lambda>k. at (centered b n1 d K x1) [idx ! 0, idx ! 1, k]
         * dot n2 (\<lambda>l. at (centered b n2 d K x2) [idx ! 0, l, k] * at v [idx ! 0, l, idx ! 2]))))"
proof -
  let ?c1 = "centered b n1 d K x1"
  let ?c2 = "centered b n2 d K x2"
  let ?ct = "tabulate [b, d, n2] (\<lambda>idx. at ?c2 [idx ! 0, idx ! 2, idx ! 1])"
  let ?w = "tabulate [b, d, c]
      (\<lambda>idx. dot n2 (\<lambda>l. at ?ct [idx ! 0, idx ! 1, l] * at v [idx ! 0, l, idx ! 2]))"
  have w: "matmul ?ct v = Inr ?w"
    by (rule matmul3) (simp_all add: shape_tabulate assms(5))
  have m: "matmul ?c1 ?w = Inr (tabulate [b, n1, c]
      (\<lambda>idx. dot d (\<lambda>k. at ?c1 [idx ! 0, idx ! 1, k] * at ?w [idx ! 0, k, idx ! 2])))"
    by (rule matmul3) (simp_all add: shape_tabulate shape_centered)
  have both: "then_res (matmul ?ct v) (matmul ?c1) = Inr (tabulate [b, n1, c] (\<lambda>idx.
      dot d (\<lambda>k. at ?c1 [idx ! 0, idx ! 1, k]
         * dot n2 (\<lambda>l. at ?c2 [idx ! 0, l, k] * at v [idx ! 0, l, idx ! 2]))))"
    unfolding w then_res_Inr m
    by (intro arg_cong [where f = Inr] tabulate3_cong dot_cong)
       (simp add: at_tabulate3 cong: dot_cong)
  show ?thesis
  proof (cases "x1 = x2")
    case True
    then have n: "n1 = n2" using kernel_input_same [OF assms(1,2)] by simp
    have "pr = RootLazyTensor ?c1"
      using assms(4) True linear_prod_result [OF assms(1-3)] by simp
    moreover have "transpose ?c1 (-1) (-2) = Inr ?ct"
      unfolding True n by (rule transpose3_neg) (rule shape_centered)
    ultimately show ?thesis using both True n by simp
  next
    case False
    then have "pr = MatmulLazyTensor ?c1 ?ct"
      using assms(4) linear_prod_result [OF assms(1-3)] by simp
    then show ?thesis using both by simp
  qed
qed

lemma forward_matmul:
  assumes "kernel_input b n1 d x1" "kernel_input b n2 d x2" "kernel_params d K"
    and "forward K x1 x2 = Inr res" and "shape v = [b, n2, c]"
  shows "lazy_matmul res v = Inr (tabulate [b, n1, c] (\<lambda>idx.
      dot n2 (\<lambda>l. at (dense_linear b n1 n2 d K x1 x2) [idx ! 0, idx ! 1, l]
                  * at v [idx ! 0, l, idx ! 2])))"
proof -
  let ?vexp = "tabulate [b, n1, n2] (\<lambda>_. at (variance K) [0])"
  let ?p = "tabulate [b, n1, c] (\<lambda>idx.
      dot d (\<lambda>k. at (centered b n1 d K x1) [idx ! 0, idx ! 1, k]
         * dot n2 (\<lambda>l. at (centered b n2 d K x2) [idx ! 0, l, k] * at v [idx ! 0, l, idx ! 2])))"
  let ?t = "tabulate [b, n1, n2] (\<lambda>idx. at ?vexp idx)"
  let ?q = "tabulate [b, n1, c]
      (\<lambda>idx. dot n2 (\<lambda>l. at ?t [idx ! 0, idx ! 1, l] * at v [idx ! 0, l, idx ! 2]))"
  obtain pr where p: "linear_prod K x1 x2 = Inr pr"
    and f: "forward K x1 x2 = Inr (SumLazyTensor pr ?vexp)"
    using forward_result [OF assms(1-3)] by blast
  have res: "res = SumLazyTensor pr ?vexp" using f assms(4) by simp
  have sz: "lazy_size pr = Inr [b, n1, n2]"
    by (rule linear_prod_size [OF assms(1-3) p])
  have s1: "lazy_size (SumLazyTensor pr ?vexp) = Inr [b, n1, n2]"
    by (simp add: sz shape_tabulate broadcast_same3)
  have s2: "lazy_matmul pr v = Inr ?p"
    by (rule linear_prod_matmul [OF assms(1-3) p assms(5)])
  have s3: "expand ?vexp [b, n1, n2] = Inr ?t"
    by (rule expand_same3) (simp add: shape_tabulate)
  have s4: "matmul ?t v = Inr ?q"
    by (rule matmul3) (simp_all add: shape_tabulate assms(5))
  have s5: "torch_add ?p ?q = Inr (tabulate [b, n1, c] (\<lambda>idx. at ?p idx + at ?q idx))"
    by (rule add3) (simp_all add: shape_tabulate)
  have "lazy_matmul res v = Inr (tabulate [b, n1, c] (\<lambda>idx. at ?p idx + at ?q idx))"
    unfolding res lazy_matmul.simps s1 then_res_Inr s2 s3 s4 s5 ..
  also have "tabulate [b, n1, c] (\<lambda>idx. at ?p idx + at ?q idx)
      = tabulate [b, n1, c] (\<lambda>idx.
      dot n2 (\<lambda>l. at (dense_linear b n1 n2 d K x1 x2) [idx ! 0, idx ! 1, l]
                  * at v [idx ! 0, l, idx ! 2]))"
  proof (rule tabulate3_cong)
    fix bi i j assume b: "bi < b" "i < n1" "j < c"
    have "at ?p [bi, i, j] = dot d (\<lambda>k. (xat x1 bi i k - at (offset K) [0, 0, k])
         * dot n2 (\<lambda>l. (xat x2 bi l k - at (offset K) [0, 0, k]) * at v [bi, l, j]))"
      using b by (simp add: at_tabulate3 at_centered cong: dot_cong)
    also have "\<dots> = dot n2 (\<lambda>l. dot d (\<lambda>k. (xat x1 bi i k - at (offset K) [0, 0, k])
         * (xat x2 bi l k - at (offset K) [0, 0, k])) * at v [bi, l, j])"
      by (rule dot_assoc)
    finally have lhs1: "at ?p [bi, i, j] = dot n2 (\<lambda>l. dot d (\<lambda>k.
         (xat x1 bi i k - at (offset K) [0, 0, k])
         * (xat x2 bi l k - at (offset K) [0, 0, k])) * at v [bi, l, j])" .
    have lhs2: "at ?q [bi, i, j] = dot n2 (\<lambda>l. at (variance K) [0] * at v [bi, l, j])"
      using b by (simp add: at_tabulate3 cong: dot_cong)
    have rhs: "dot n2 (\<lambda>l. at (dense_linear b n1 n2 d K x1 x2) [bi, i, l] * at v [bi, l, j])
      = dot n2 (\<lambda>l. (dot d (\<lambda>k. (xat x1 bi i k - at (offset K) [0, 0, k])
         * (xat x2 bi l k - at (offset K) [0, 0, k])) + at (variance K) [0]) * at v [bi, l, j])"
      using b by (intro dot_cong) (simp add: dense_linear_def at_tabulate3)
    show "at ?p [bi, i, j] + at ?q [bi, i, j]
        = dot n2 (\<lambda>l. at (dense_linear b n1 n2 d K x1 x2) [[bi, i, j] ! 0, [bi, i, j] ! 1, l]
                  * at v [[bi, i, j] ! 0, l, [bi, i, j] ! 2])"
      unfolding lhs1 lhs2 using rhs by (simp add: dot_plus_const)
  qed
  finally show ?thesis .
qed


lemma forward_size:
  assumes "kernel_input b n1 d x1" "kernel_input b n2 d x2" "kernel_params d K"
    and "forward K x1 x2 = Inr res"
  shows "lazy_size res = Inr [b, n1, n2]"
proof -
  obtain pr where p: "linear_prod K x1 x2 = Inr pr"
    and f: "forward K x1 x2 =
       Inr (SumLazyTensor pr (tabulate [b, n1, n2] (\<lambda>_. at (variance K) [0])))"
    using forward_result [OF assms(1-3)] by blast
  have "lazy_size pr = Inr [b, n1, n2]"
    by (rule linear_prod_size [OF assms(1-3) p])
  then show ?thesis
    using f assms(4) by (auto simp: shape_tabulate broadcast_same3)
qed

text \<open>
  Claim C7. For \<open>x1\<close> of \<open>n1\<close> rows and \<open>x2\<close> of \<open>n2\<close> rows of \<open>d\<close> coordinates,
  the lazy matrix returned by \<open>forward\<close> has size \<open>(b, n1, n2)\<close>, where \<open>b\<close> is the
  batch size (1 for matrices), the materialised matrix has that size too, and on either
  branch the implicit product with any \<open>n2\<close>-row matrix \<open>v\<close> of the same batch size
  returns the \<open>n1\<close>-row product, equal to the product of the materialised matrix with
  \<open>v\<close>.
\<close>
theorem linear_forward_shape_matvec:
  assumes "kernel_input b n1 d x1" "kernel_input b n2 d x2" "kernel_params d K"
  shows "\<exists>res m. forward K x1 x2 = Inr res \<and> lazy_size res = Inr [b, n1, n2] \<and>
           evaluate res = Inr m \<and> shape m = [b, n1, n2] \<and>
           (\<forall>v c. shape v = [b, n2, c] \<longrightarrow>
              (\<exists>p. lazy_matmul res v = Inr p \<and> shape p = [b, n1, c] \<and> matmul m v = Inr p))"
proof -
  obtain res where r: "forward K x1 x2 = Inr res"
    using forward_result [OF assms] by blast
  let ?m = "dense_linear b n1 n2 d K x1 x2"
  have sz: "lazy_size res = Inr [b, n1, n2]" by (rule forward_size [OF assms r])
  have ev: "evaluate res = Inr ?m" by (rule forward_evaluate [OF assms r])
  have mv: "\<exists>p. lazy_matmul res v = Inr p \<and> shape p = [b, n1, c] \<and> matmul ?m v = Inr p"
    if v: "shape v = [b, n2, c]" for v c
  proof -
    let ?p = "tabulate [b, n1, c] (\<lambda>idx.
      dot n2 (\<lambda>l. at ?m [idx ! 0, idx ! 1, l] * at v [idx ! 0, l, idx ! 2]))"
    have "lazy_matmul res v = Inr ?p" by (rule forward_matmul [OF assms r v])
    moreover have "matmul ?m v = Inr ?p"
      by (rule matmul3) (simp_all add: shape_dense_linear v)
    ultimately show ?thesis by (simp add: shape_tabulate)
  qed
  show ?thesis using r sz ev mv shape_dense_linear by blast
qed

theorem linear_forward_shape_matvec_witness:
  "then_res (forward example_kernel example_x example_y) lazy_size = Inr [1, 2, 3]
   \<and> then_res (forward example_kernel example_x example_y)
        (\<lambda>l. lazy_matmul l (Tensor [1, 3, 1] [1, 1, 1]))
      = Inr (Tensor [1, 2, 1] [1068, 930])"
proof -
  have h1: "kernel_input 1 2 2 example_x"
    by (simp add: kernel_input_def example_x_def)
  have h2: "kernel_input 1 3 2 example_y"
    by (simp add: kernel_input_def example_y_def)
  have h3: "kernel_params 2 example_kernel"
    by (simp add: kernel_params_def example_kernel_def)
  have v: "shape (Tensor [1, 3, 1] [1, 1, 1 :: int]) = [1, 3, 1]" by simp
  have e: "then_res (forward example_kernel example_x example_y) evaluate
      = Inr (Tensor [1, 2, 3] [410, 356, 302, 356, 310, 264])"
    by code_simp
  have m: "matmul (Tensor [1, 2, 3] [410, 356, 302, 356, 310, 264 :: int])
      (Tensor [1, 3, 1] [1, 1, 1]) = Inr (Tensor [1, 2, 1] [1068, 930])"
    by code_simp
  obtain res mm where r: "forward example_kernel example_x example_y = Inr res"
      "lazy_size res = Inr [1, 2, 3]" "evaluate res = Inr mm"
      and mv: "\<forall>v c. shape v = [1, 3, c] \<longrightarrow>
              (\<exists>p. lazy_matmul res v = Inr p \<and> shape p = [1, 2, c] \<and> matmul mm v = Inr p)"
    using linear_forward_shape_matvec [OF h1 h2 h3] by blast
  have "mm = Tensor [1, 2, 3] [410, 356, 302, 356, 310, 264]"
    using e r by simp
  then show ?thesis using r mv v m by fastforce
qed

text \<open>
  Claim C9. For inputs with the right last dimension of which one has no rows
  (\<open>n1 = 0\<close> or \<open>n2 = 0\<close>), \<open>forward\<close> returns without an exception, the size of
  the lazy matrix is \<open>(b, n1, n2)\<close> with the zero in its place, and materialising it
  returns the tensor of that size with no elements.
\<close>
theorem linear_forward_zero_length:
  assumes "kernel_input b n1 d x1" "kernel_input b n2 d x2" "kernel_params d K"
    and "n1 = 0 \<or> n2 = 0"
  shows "\<exists>res. forward K x1 x2 = Inr res \<and> lazy_size res = Inr [b, n1, n2] \<and>
               evaluate res = Inr (Tensor [b, n1, n2] [])"
proof -
  obtain res where r: "forward K x1 x2 = Inr res"
    using forward_result [OF assms(1-3)] by blast
  have "length (indices [b, n1, n2]) = 0"
    using assms(4) by (auto simp: length_indices)
  then have "dense_linear b n1 n2 d K x1 x2 = Tensor [b, n1, n2] []"
    by (simp add: dense_linear_def tabulate_def)
  then show ?thesis
    using r forward_size [OF assms(1-3) r] forward_evaluate [OF assms(1-3) r] by auto
qed

theorem linear_forward_zero_length_witness:
  "then_res (forward example_kernel (Tensor [0, 2] []) example_y) lazy_size = Inr [1, 0, 3]
   \<and> then_res (forward example_kernel (Tensor [0, 2] []) example_y) evaluate
       = Inr (Tensor [1, 0, 3] [])"
proof -
  have h1: "kernel_input 1 0 2 (Tensor [0, 2] [] :: int tensor)"
    by (simp add: kernel_input_def)
  have h2: "kernel_input 1 3 2 example_y"
    by (simp add: kernel_input_def example_y_def)
  have h3: "kernel_params 2 example_kernel"
    by (simp add: kernel_params_def example_kernel_def)
  show ?thesis
    using linear_forward_zero_length [OF h1 h2 h3] by auto
qed

text \<open>
  Claim C10. For matrices \<open>x1\<close> of size \<open>(n1, d)\<close> and \<open>x2\<close> of size \<open>(n2, d)\<close>,
  subtracting the offset of size \<open>(1, 1, d)\<close> gives centered tensors of three
  dimensions, \<open>(1, n1, d)\<close> and \<open>(1, n2, d)\<close>, and the lazy matrix \<open>forward\<close>
  returns has the three-dimensional size \<open>(1, n1, n2)\<close>, as has its materialisation;
  on either branch.
\<close>
theorem linear_forward_unbatched:
  assumes "shape x1 = [n1, d]" "shape x2 = [n2, d]" "kernel_params d K"
  shows "\<exists>c1 c2 res m. torch_sub x1 (offset K) = Inr c1 \<and> shape c1 = [1, n1, d] \<and>
           torch_sub x2 (offset K) = Inr c2 \<and> shape c2 = [1, n2, d] \<and>
           forward K x1 x2 = Inr res \<and> lazy_size res = Inr [1, n1, n2] \<and>
           evaluate res = Inr m \<and> shape m = [1, n1, n2]"
proof -
  have i1: "kernel_input 1 n1 d x1" using assms(1) by (simp add: kernel_input_def)
  have i2: "kernel_input 1 n2 d x2" using assms(2) by (simp add: kernel_input_def)
  obtain res where r: "forward K x1 x2 = Inr res"
    using forward_result [OF i1 i2 assms(3)] by blast
  show ?thesis
    using sub_centered [OF i1 assms(3)] sub_centered [OF i2 assms(3)] r
      forward_size [OF i1 i2 assms(3) r] forward_evaluate [OF i1 i2 assms(3) r]
    by (simp add: shape_centered shape_dense_linear)
qed



theorem linear_forward_unbatched_witness:
  "torch_sub example_x (offset example_kernel) = Inr (Tensor [1, 2, 2] [- 9, - 18, - 7, - 16])
   \<and> then_res (forward example_kernel example_x example_y) lazy_size = Inr [1, 2, 3]"
proof -
  have h1: "shape example_x = [2, 2]" by (simp add: example_x_def)
  have h2: "shape example_y = [3, 2]" by (simp add: example_y_def)
  have h3: "kernel_params 2 example_kernel"
    by (simp add: kernel_params_def example_kernel_def)
  have s: "torch_sub example_x (offset example_kernel)
           = Inr (Tensor [1, 2, 2] [- 9, - 18, - 7, - 16])"
    by code_simp
  show ?thesis
    using linear_forward_unbatched [OF h1 h2 h3] s by auto
qed


lemma broadcast_rev_error: "broadcast_rev xs ys = Inl e \<Longrightarrow> e = RuntimeError"
  by (induction xs ys rule: broadcast_rev.induct)
     (auto simp: then_res_def split: if_splits sum.splits)

lemma torch_sub_error: "torch_sub a b = Inl e \<Longrightarrow> e = RuntimeError"
  by (auto simp: torch_sub_def broadcast_shapes_def then_res_def
           split: sum.splits dest: broadcast_rev_error)

lemma broadcast_mismatch:
  assumes "s \<noteq> []" "last s \<noteq> d" "last s \<noteq> 1" "d \<noteq> 1"
  shows "broadcast_shapes s [1, 1, d] = Inl RuntimeError"
proof -
  obtain k ks where r: "rev s = k # ks" and k: "k = last s"
    using assms(1) by (cases s rule: rev_cases) auto
  show ?thesis
    unfolding broadcast_shapes_def r using assms(2-4) k by simp
qed

lemma sub_mismatch:
  assumes "shape (offset K) = [1, 1, d]"
    and "shape x \<noteq> []" "last (shape x) \<noteq> d" "last (shape x) \<noteq> 1" "d \<noteq> 1"
  shows "torch_sub x (offset K) = Inl RuntimeError"
  unfolding torch_sub_def assms(1) broadcast_mismatch [OF assms(2-5)] by simp

text \<open>
  Claim C8, as amended. When the last dimension of \<open>x1\<close> or of \<open>x2\<close> differs from
  the \<open>num_dimensions\<close> the offset was created with, and neither that dimension nor
  \<open>num_dimensions\<close> is 1, \<open>forward\<close> raises the \<^verbatim>\<open>RuntimeError\<close> of the centering
  subtraction, which cannot broadcast. (When one of the two is 1 the subtraction
  broadcasts: see the counterexample below.)
\<close>
theorem dimension_mismatch_rejected:
  assumes "kernel_params d K" and "mismatched d x1 \<or> mismatched d x2"
  shows "forward K x1 x2 = Inl RuntimeError"
proof -
  have o: "shape (offset K) = [1, 1, d]" using assms(1) by (simp add: kernel_params_def)
  have "linear_prod K x1 x2 = Inl RuntimeError"
  proof (cases "mismatched d x1")
    case True
    then have "torch_sub x1 (offset K) = Inl RuntimeError"
      using sub_mismatch [OF o] by (simp add: mismatched_def)
    then show ?thesis by (simp add: linear_prod_def)
  next
    case False
    then have m2: "mismatched d x2" using assms(2) by simp
    then have s2: "torch_sub x2 (offset K) = Inl RuntimeError"
      using sub_mismatch [OF o] by (simp add: mismatched_def)
    have ne: "\<not> (shape x1 = shape x2 \<and> torch_equal x1 x2)"
      using False m2 by (auto simp: mismatched_def)
    show ?thesis
    proof (cases "torch_sub x1 (offset K)")
      case (Inl e)
      then show ?thesis using ne torch_sub_error [OF Inl] by (simp add: linear_prod_def)
    next
      case (Inr c1)
      then show ?thesis using ne s2 by (simp add: linear_prod_def)
    qed
  qed
  then show ?thesis by (simp add: forward_def)
qed

theorem dimension_mismatch_rejected_witness:
  "LinearKernel_init 3 = Inr example_kernel3
   \<and> forward example_kernel3 example_wide example_wide = Inl RuntimeError"
proof -
  have h1: "kernel_params 3 example_kernel3"
    by (simp add: kernel_params_def example_kernel3_def)
  have h2: "mismatched 3 example_wide"
    by (simp add: mismatched_def example_wide_def)
  have "LinearKernel_init 3 = Inr example_kernel3"
    by code_simp
  then show ?thesis
    using dimension_mismatch_rejected [OF h1 disjI1 [OF h2], of example_wide] by simp
qed

text \<open>
  Claim C8 as stated fails: a kernel constructed with \<open>num_dimensions = 3\<close>, called
  on an input of size \<open>(2, 1)\<close>, whose last dimension 1 differs from 3, raises
  nothing. The subtraction broadcasts the single column against the offset and
  \<open>forward\<close> returns a lazy matrix of size \<open>(1, 2, 2)\<close>.
\<close>
theorem dimension_mismatch_counterexample:
  "LinearKernel_init 3 = Inr example_kernel3
   \<and> last (shape example_column) = 1
   \<and> forward example_kernel3 example_column example_column
       = Inr (SumLazyTensor (RootLazyTensor (Tensor [1, 2, 3] [1, 1, 1, 2, 2, 2]))
                (Tensor [1, 2, 2] [0, 0, 0, 0]))
   \<and> lazy_size (SumLazyTensor (RootLazyTensor (Tensor [1, 2, 3] [1, 1, 1, 2, 2, 2 :: int]))
                (Tensor [1, 2, 2] [0, 0, 0, 0])) = Inr [1, 2, 2]"
  by code_simp

subsection \<open>The multitask kernel\<close>














text \<open>
  What \<^verbatim>\<open>size\<close> returns for matrices and for batches, and an example with
  matrices of two rows, where the declared size and the size of the result of
  \<^verbatim>\<open>forward\<close> agree.
\<close>

lemma multitask_size_matrix:
  assumes "shape x1 = [n1, d1]" "shape x2 = [n2, d2]"
  shows "multitask_size K x1 x2 = Inr [n_tasks K * int n1, n_tasks K * int n2]"
  by (simp add: multitask_size_def ndimension_def size_dim_def norm_dim_def assms)

lemma multitask_size_batch:
  assumes "shape x1 = [b, n1, d1]" "shape x2 = [b2, n2, d2]"
  shows "multitask_size K x1 x2 = Inr [int b, n_tasks K * int n1, n_tasks K * int n2]"
  by (simp add: multitask_size_def ndimension_def size_dim_def norm_dim_def assms)

lemma multitask_size_matrix_example:
  "multitask_size example_multitask example_rows example_rows = Inr [4, 4]
   \<and> then_res (multitask_forward Inr example_multitask example_rows example_rows) lazy_size
       = Inr [4, 4]"
  by code_simp

text \<open>
  Claim C3 at a batch of one. For \<open>x1 = x2\<close> of size \<open>(1, 2, 1)\<close>, two tasks and a
  data kernel that returns the dense \<open>(1, 2, 2)\<close> matrix of dot products,
  \<^verbatim>\<open>size\<close> declares \<open>(1, 4, 4)\<close>, while \<^verbatim>\<open>forward\<close> squeezes the batch
  dimension of the data covariance away and returns a lazy matrix of size \<open>(4, 4)\<close>,
  which materialises to a tensor of two dimensions.
\<close>
theorem multitask_size_batch_of_one:
  "multitask_size example_multitask example_batch example_batch = Inr [1, 4, 4]
   \<and> then_res (multitask_forward Inr example_multitask example_batch example_batch) lazy_size
       = Inr [4, 4]
   \<and> then_res (multitask_forward Inr example_multitask example_batch example_batch) evaluate
       = Inr (Tensor [4, 4] [2, 4, 1, 2, 4, 8, 2, 4, 1, 2, 2, 4, 2, 4, 4, 8])"
  by code_simp

end
